theory Spec2Isabelle
  imports Complex_Main
begin

section \<open>Tensors and the TensorFlow operations used by the notebooks\<close>

text \<open>
  A rank-1 tensor is a list, a rank-2 tensor a list of rows. The notebooks compute on
  float32 tensors; the definitions below take the entries as real numbers, so they give the
  control flow, the shapes and the exact value of every expression, and say nothing about
  rounding, overflow or underflow. The statements proved about them are therefore either
  independent of the entries (which tensors reach which operation, which calls are made) or
  evaluations at inputs where every intermediate value is exactly representable in float32
  and no exponential, logarithm or square root of a non-trivial argument is involved.
  The two results that real arithmetic cannot hold either (the mean of no elements, a
  quotient by a zero temperature) are the failure \<open>NotFinite\<close>; an operation that raises
  on incompatible shapes is the failure \<open>InvalidArgument\<close>.
\<close>

type_synonym tensor1 = "real list"
type_synonym tensor2 = "real list list"

datatype failure = InvalidArgument | NotFinite

definition row_len :: "'a list list \<Rightarrow> nat" where
  "row_len m = (case m of [] \<Rightarrow> 0 | r # _ \<Rightarrow> length r)"

text \<open>\<open>tf.concat([a, b], axis=0)\<close>: the rows of \<open>a\<close>, then the rows of \<open>b\<close>; all rows
  must have one length.\<close>

definition concat0 :: "tensor2 \<Rightarrow> tensor2 \<Rightarrow> failure + tensor2" where
  "concat0 a b =
     (if list_all (\<lambda>r. length r = row_len (a @ b)) (a @ b) then Inr (a @ b)
      else Inl InvalidArgument)"

definition dot :: "tensor1 \<Rightarrow> tensor1 \<Rightarrow> real" where
  "dot a b = sum_list (map2 (*) a b)"

text \<open>\<open>tf.matmul(a, b, transpose_b=True)\<close>: entry \<open>(i, j)\<close> is the dot product of row
  \<open>i\<close> of \<open>a\<close> and row \<open>j\<close> of \<open>b\<close>.\<close>

definition matmul_transpose_b :: "tensor2 \<Rightarrow> tensor2 \<Rightarrow> tensor2" where
  "matmul_transpose_b a b = map (\<lambda>r. map (dot r) b) a"

definition div_scalar :: "tensor2 \<Rightarrow> real \<Rightarrow> tensor2" where
  "div_scalar m c = map (map (\<lambda>x. x / c)) m"

definition scale :: "real \<Rightarrow> tensor2 \<Rightarrow> tensor2" where
  "scale c m = map (map (\<lambda>x. c * x)) m"

definition eye :: "nat \<Rightarrow> tensor2" where
  "eye n = map (\<lambda>i. map (\<lambda>j. if i = j then 1 else 0) [0..<n]) [0..<n]"

text \<open>Elementwise subtraction with TensorFlow's broadcasting: along each of the two axes
  the sizes must be equal or one of them must be 1, and an axis of size 1 is repeated to
  the size of the other operand (also to size 0).\<close>

definition stretch :: "nat \<Rightarrow> 'a list \<Rightarrow> 'a list" where
  "stretch n xs = (if length xs = 1 then replicate n (hd xs) else xs)"

definition tsub :: "tensor2 \<Rightarrow> tensor2 \<Rightarrow> failure + tensor2" where
  "tsub a b =
     (let ra = length a; rb = length b; ca = row_len a; cb = row_len b in
      if (ra = rb \<or> ra = 1 \<or> rb = 1) \<and> (ca = cb \<or> ca = 1 \<or> cb = 1) then
        (let r = (if ra = 1 then rb else ra); c = (if ca = 1 then cb else ca) in
         Inr (map2 (map2 (-)) (map (stretch c) (stretch r a)) (map (stretch c) (stretch r b))))
      else Inl InvalidArgument)"

text \<open>\<open>tf.linalg.diag_part(m, k)\<close>: the \<open>k\<close>-th diagonal, above the main one for
  \<open>k > 0\<close> and below it for \<open>k < 0\<close>; \<open>k\<close> must lie strictly between minus the number of
  rows and the number of columns, or be 0.\<close>

definition diag_part :: "tensor2 \<Rightarrow> int \<Rightarrow> failure + tensor1" where
  "diag_part m k =
     (let rows = length m; cols = row_len m in
      if k = 0 \<or> (- int rows < k \<and> k < int cols) then
        Inr (if 0 \<le> k
             then map (\<lambda>i. m ! i ! (i + nat k)) [0..<min rows (cols - nat k)]
             else map (\<lambda>i. m ! (i + nat (- k)) ! i) [0..<min (rows - nat (- k)) cols])
      else Inl InvalidArgument)"

text \<open>\<open>tf.reduce_sum(m, axis=1)\<close> and \<open>tf.reduce_mean\<close> of a rank-1 tensor; the mean of
  an empty tensor is NaN.\<close>

definition reduce_sum1 :: "tensor2 \<Rightarrow> tensor1" where
  "reduce_sum1 m = map sum_list m"

definition reduce_mean :: "tensor1 \<Rightarrow> failure + real" where
  "reduce_mean xs = (if xs = [] then Inl NotFinite else Inr (sum_list xs / real (length xs)))"

section \<open>The contrastive loss of the SimCLR notebook\<close>

text \<open>The first half of \<open>contrastive_loss\<close>: the two batches are concatenated, the
  similarity matrix is the product of the concatenation with its transpose divided by the
  temperature, and \<open>1e9\<close> times the identity matrix of size twice the batch size is
  subtracted from it.\<close>

definition masked_similarity :: "tensor2 \<Rightarrow> tensor2 \<Rightarrow> real \<Rightarrow> failure + tensor2" where
  "masked_similarity z1 z2 temperature =
     (case concat0 z1 z2 of Inl e \<Rightarrow> Inl e | Inr z \<Rightarrow>
      let sim = matmul_transpose_b z z;
          sim = div_scalar sim temperature;
          batch_size = length z1;
          mask = eye (2 * batch_size)
      in tsub sim (scale (10 ^ 9) mask))"

text \<open>The second half, from the masked similarity matrix on: the positives are the two
  diagonals offset by the batch size, the numerator their exponential, the denominator the
  row sums of the exponential of the whole matrix.\<close>

definition loss_from_sim :: "tensor2 \<Rightarrow> nat \<Rightarrow> failure + real" where
  "loss_from_sim sim batch_size =
     (case diag_part sim (int batch_size) of Inl e \<Rightarrow> Inl e | Inr upper \<Rightarrow>
      (case diag_part sim (- int batch_size) of Inl e \<Rightarrow> Inl e | Inr lower \<Rightarrow>
       let positives = upper @ lower;
           numerator = map exp positives;
           denominator = reduce_sum1 (map (map exp) sim);
           loss = map2 (\<lambda>n d. - ln (n / d)) numerator denominator
       in reduce_mean loss))"

text \<open>\<open>contrastive_loss(z1, z2, temperature)\<close>. With a zero temperature every row of the
  scaled matrix holds an infinity or a NaN and so does the loss.\<close>

definition contrastive_loss :: "tensor2 \<Rightarrow> tensor2 \<Rightarrow> real \<Rightarrow> failure + real" where
  "contrastive_loss z1 z2 temperature =
     (case masked_similarity z1 z2 temperature of Inl e \<Rightarrow> Inl e | Inr sim \<Rightarrow>
      if temperature = 0 then Inl NotFinite else loss_from_sim sim (length z1))"

text \<open>The published NT-Xent loss, written from its definition and not from the code: with
  \<open>sim i k\<close> the similarity of samples \<open>i\<close> and \<open>k\<close> of the concatenated batch and \<open>p i\<close> the
  partner of \<open>i\<close>, offset by the batch size \<open>N\<close>, it is the mean over the \<open>2N\<close> samples \<open>i\<close> of
  \<open>- log (exp (sim i (p i) / t) / (\<Sum>k \<noteq> i. exp (sim i k / t)))\<close>.\<close>

definition partner :: "nat \<Rightarrow> nat \<Rightarrow> nat" where
  "partner N i = (if i < N then i + N else i - N)"

definition sim_at :: "tensor2 \<Rightarrow> nat \<Rightarrow> nat \<Rightarrow> real" where
  "sim_at z i k = dot (z ! i) (z ! k)"

definition nt_xent :: "tensor2 \<Rightarrow> tensor2 \<Rightarrow> real \<Rightarrow> failure + real" where
  "nt_xent z1 z2 t =
     (let N = length z1; z = z1 @ z2 in
      reduce_mean (map (\<lambda>i. - ln (exp (sim_at z i (partner N i) / t) /
                                  (\<Sum>k \<in> {0..<2 * N} - {i}. exp (sim_at z i k / t))))
                   [0..<2 * N]))"

section \<open>Image tensors\<close>

text \<open>An image tensor of shape (height, width, channels): rows of pixels, a pixel being
  the list of its channel values.\<close>

type_synonym image = "real list list list"

definition is_image :: "nat \<Rightarrow> nat \<Rightarrow> nat \<Rightarrow> image \<Rightarrow> bool" where
  "is_image h w c img \<longleftrightarrow>
     length img = h \<and> list_all (\<lambda>row. length row = w \<and> list_all (\<lambda>px. length px = c) row) img"

text \<open>The values of channel \<open>c\<close> over all pixels.\<close>

definition channel_values :: "image \<Rightarrow> nat \<Rightarrow> real list" where
  "channel_values img c = map (\<lambda>px. px ! c) (concat img)"

section \<open>The encoder of the SimCLR notebook\<close>

definition relu :: "real \<Rightarrow> real" where
  "relu x = max x 0"

text \<open>\<open>layers.Conv2D(filters, 3, strides=2, activation='relu')\<close>, with the default padding
  \<open>valid\<close>. The kernel has shape (3, 3, input channels, filters), the bias one entry per
  filter. \<open>patch img y x\<close> lists the entries of the 3 \<times> 3 window whose corner is at
  \<open>(2y, 2x)\<close>, and \<open>filter_weights K f\<close> the weights of filter \<open>f\<close> in the same order.\<close>

type_synonym kernel = "real list list list list"

definition out_size :: "nat \<Rightarrow> nat" where
  "out_size n = (n - 3) div 2 + 1"

definition patch :: "image \<Rightarrow> nat \<Rightarrow> nat \<Rightarrow> real list" where
  "patch img y x =
     concat (map (\<lambda>row. concat (take 3 (drop (2 * x) row))) (take 3 (drop (2 * y) img)))"

definition filter_weights :: "kernel \<Rightarrow> nat \<Rightarrow> real list" where
  "filter_weights K f = concat (map (\<lambda>krow. concat (map (map (\<lambda>w. w ! f)) krow)) K)"

definition conv2d_relu :: "kernel \<Rightarrow> real list \<Rightarrow> image \<Rightarrow> image" where
  "conv2d_relu K b img =
     map (\<lambda>y. map (\<lambda>x. map (\<lambda>f. relu (dot (patch img y x) (filter_weights K f) + b ! f))
                          [0..<length b])
                [0..<out_size (row_len img)])
         [0..<out_size (length img)]"

text \<open>\<open>layers.GlobalAveragePooling2D()\<close>: the mean of every channel over all pixels.\<close>

definition global_average_pooling2d :: "image \<Rightarrow> real list" where
  "global_average_pooling2d img =
     map (\<lambda>c. sum_list (channel_values img c) / real (length (concat img)))
         [0..<row_len (concat img)]"

text \<open>\<open>layers.Dense(units, activation)\<close>: the kernel has shape (inputs, units).\<close>

definition dense :: "(real \<Rightarrow> real) \<Rightarrow> real list list \<Rightarrow> real list \<Rightarrow> real list \<Rightarrow> real list" where
  "dense activation W b x =
     map (\<lambda>j. activation (dot x (map (\<lambda>wrow. wrow ! j) W) + b ! j)) [0..<length b]"

text \<open>\<open>tf.math.l2_normalize(x, axis=1)\<close> on one row: TensorFlow computes
  \<open>x * rsqrt (maximum (reduce_sum (square x)) epsilon)\<close> with \<open>epsilon = 1e-12\<close>.\<close>

definition l2_normalize :: "real list \<Rightarrow> real list" where
  "l2_normalize x =
     map (\<lambda>v. v * (1 / sqrt (max (sum_list (map (\<lambda>u. u * u) x)) (1 / 10 ^ 12)))) x"

text \<open>The trainable weights of the model that \<open>create_encoder\<close> builds.\<close>

record encoder_weights =
  conv1_kernel :: kernel
  conv1_bias :: "real list"
  conv2_kernel :: kernel
  conv2_bias :: "real list"
  dense1_kernel :: "real list list"
  dense1_bias :: "real list"
  dense2_kernel :: "real list list"
  dense2_bias :: "real list"

definition base_model :: "encoder_weights \<Rightarrow> image \<Rightarrow> real list" where
  "base_model w img =
     global_average_pooling2d
       (conv2d_relu (conv2_kernel w) (conv2_bias w)
         (conv2d_relu (conv1_kernel w) (conv1_bias w) img))"

definition projection_head :: "encoder_weights \<Rightarrow> real list \<Rightarrow> real list" where
  "projection_head w features =
     dense (\<lambda>v. v) (dense2_kernel w) (dense2_bias w)
       (dense relu (dense1_kernel w) (dense1_bias w) features)"

text \<open>The model returned by \<open>create_encoder\<close>, applied to a batch of inputs under the
  weights \<open>w\<close>: the input layer fixes the shape (28, 28, 1), every image goes through the
  base model and the projection head, and the rows of the result are normalised.\<close>

definition create_encoder :: "encoder_weights \<Rightarrow> image list \<Rightarrow> failure + tensor2" where
  "create_encoder w inputs =
     (if list_all (is_image 28 28 1) inputs
      then Inr (map (\<lambda>img. l2_normalize (projection_head w (base_model w img))) inputs)
      else Inl InvalidArgument)"

text \<open>The weights as Keras builds them for \<open>projection_dim\<close> outputs: every bias starts at
  zero; the kernels are drawn at random, and \<open>k\<close> stands for the value drawn for each
  entry.\<close>

definition built_weights :: "nat \<Rightarrow> real \<Rightarrow> encoder_weights" where
  "built_weights projection_dim k =
     \<lparr> conv1_kernel = replicate 3 (replicate 3 (replicate 1 (replicate 32 k))),
       conv1_bias = replicate 32 0,
       conv2_kernel = replicate 3 (replicate 3 (replicate 32 (replicate 64 k))),
       conv2_bias = replicate 64 0,
       dense1_kernel = replicate 64 (replicate 64 k),
       dense1_bias = replicate 64 0,
       dense2_kernel = replicate 64 (replicate projection_dim k),
       dense2_bias = replicate projection_dim 0 \<rparr>"

text \<open>An image whose entries are all zero, and the Euclidean norm of a row.\<close>

definition zero_image :: "nat \<Rightarrow> nat \<Rightarrow> nat \<Rightarrow> image" where
  "zero_image h w c = replicate h (replicate w (replicate c 0))"

definition norm2 :: "real list \<Rightarrow> real" where
  "norm2 x = sqrt (sum_list (map (\<lambda>u. u * u) x))"

section \<open>Augmentation, the training dataset and the training loop\<close>

text \<open>A Keras preprocessing layer maps a tensor to a tensor; the random layers also draw
  from a random generator, whose state \<open>'g\<close> is passed along. The layers themselves are
  library code and are parameters of the model: \<open>Rescaling(1./255)\<close> is deterministic, the
  four random layers take and return the generator state.\<close>

type_synonym ('x, 'g) layer = "'x \<Rightarrow> 'g \<Rightarrow> 'x \<times> 'g"

record ('x, 'g) augment_layers =
  rescaling :: "'x \<Rightarrow> 'x"
  random_crop :: "('x, 'g) layer"
  random_flip :: "('x, 'g) layer"
  random_rotation :: "('x, 'g) layer"
  random_zoom :: "('x, 'g) layer"

text \<open>\<open>tf.keras.Sequential\<close>: the layers are applied in the order of the list.\<close>

fun sequential :: "('x, 'g) layer list \<Rightarrow> ('x, 'g) layer" where
  "sequential [] x g = (x, g)"
| "sequential (l # ls) x g = (case l x g of (y, g1) \<Rightarrow> sequential ls y g1)"

text \<open>\<open>SimCLRPreprocessing\<close>: \<open>augment\<close> is the attribute set by \<open>__init__\<close>, and \<open>call\<close>
  evaluates the two elements of the returned tuple from left to right.\<close>

definition augment :: "('x, 'g) augment_layers \<Rightarrow> ('x, 'g) layer" where
  "augment L =
     sequential [\<lambda>x g. (rescaling L x, g), random_crop L, random_flip L, random_rotation L,
                 random_zoom L]"

definition call :: "('x, 'g) augment_layers \<Rightarrow> 'x \<Rightarrow> 'g \<Rightarrow> ('x \<times> 'x) \<times> 'g" where
  "call L x g =
     (case augment L x g of (view1, g1) \<Rightarrow>
      (case augment L x g1 of (view2, g2) \<Rightarrow> ((view1, view2), g2)))"

text \<open>\<open>Dataset.shuffle(buffer_size)\<close>: the buffer is filled with the first elements; each
  output is an element of the buffer picked at random, whose place is taken by the next
  element of the input while there is one. \<open>rand\<close> draws a natural number.\<close>

function drain :: "('g \<Rightarrow> nat \<times> 'g) \<Rightarrow> 'a list \<Rightarrow> 'a list \<Rightarrow> 'g \<Rightarrow> 'a list \<times> 'g" where
  "drain rand buffer [] g =
     (if buffer = [] then ([], g)
      else (case rand g of (r, g1) \<Rightarrow>
        (case drain rand (take (r mod length buffer) buffer @ drop (Suc (r mod length buffer)) buffer)
                 [] g1 of
           (out, g2) \<Rightarrow> (buffer ! (r mod length buffer) # out, g2))))"
| "drain rand buffer (y # ys) g =
     (if buffer = [] then ([], g)
      else (case rand g of (r, g1) \<Rightarrow>
        (case drain rand (buffer[r mod length buffer := y]) ys g1 of
           (out, g2) \<Rightarrow> (buffer ! (r mod length buffer) # out, g2))))"
  by pat_completeness auto
termination
  apply (relation "measure (\<lambda>(rand, buffer, rest, g). length buffer + length rest)")
    apply simp
   apply (simp add: less_diff_conv2 Suc_leI)
  apply simp
  done

declare drain.simps [simp del]

definition shuffle :: "nat \<Rightarrow> ('g \<Rightarrow> nat \<times> 'g) \<Rightarrow> 'a list \<Rightarrow> 'g \<Rightarrow> 'a list \<times> 'g" where
  "shuffle buffer_size rand xs g = drain rand (take buffer_size xs) (drop buffer_size xs) g"

text \<open>\<open>Dataset.map(f)\<close> for a function that draws random numbers. The elements are
  taken in order; the interleaving of parallel calls is not modelled.\<close>

fun map_ds :: "('a \<Rightarrow> 'g \<Rightarrow> 'b \<times> 'g) \<Rightarrow> 'a list \<Rightarrow> 'g \<Rightarrow> 'b list \<times> 'g" where
  "map_ds f [] g = ([], g)"
| "map_ds f (x # xs) g =
     (case f x g of (y, g1) \<Rightarrow> (case map_ds f xs g1 of (ys, g2) \<Rightarrow> (y # ys, g2)))"

text \<open>\<open>Dataset.batch(n)\<close>: consecutive groups of \<open>n\<close> elements, the last one shorter when
  the length is no multiple of \<open>n\<close>. The notebook's \<open>n\<close> is 512; TensorFlow rejects 0.\<close>

function batch_ds :: "nat \<Rightarrow> 'a list \<Rightarrow> 'a list list" where
  "batch_ds n xs = (if n = 0 \<or> xs = [] then [] else take n xs # batch_ds n (drop n xs))"
  by pat_completeness auto
termination
  by (relation "measure (\<lambda>(n, xs). length xs)") auto

declare batch_ds.simps [simp del]

text \<open>One iteration over \<open>train_ds\<close>: shuffle, map the augmentation, batch; a batch of
  pairs is delivered as the pair of the stacked first and second views. \<open>prefetch\<close> changes
  nothing in what is delivered.\<close>

definition train_ds ::
  "(image, 'g) augment_layers \<Rightarrow> ('g \<Rightarrow> nat \<times> 'g) \<Rightarrow> image list \<Rightarrow> 'g \<Rightarrow>
     (image list \<times> image list) list \<times> 'g" where
  "train_ds L rand x_train g =
     (case shuffle 1024 rand x_train g of (shuffled, g1) \<Rightarrow>
      (case map_ds (call L) shuffled g1 of (pairs, g2) \<Rightarrow>
        (map (\<lambda>b. (map fst b, map snd b)) (batch_ds 512 pairs), g2)))"

text \<open>The state of the training cell: the weights of the model and of the optimizer
  (\<open>'w\<close>), the losses of the running epoch (\<open>None\<close> for a loss that is not a finite number),
  and, as a record of what happened, the tensors the encoder has been called on. An
  exception leaves the cell with the state reached so far.\<close>

record 'w train_state =
  weights :: 'w
  losses :: "real option list"
  fed :: "image list list"

type_synonym 'w run = "(failure \<times> 'w train_state) + 'w train_state"

definition final :: "'w run \<Rightarrow> 'w train_state" where
  "final r = (case r of Inl (e, s) \<Rightarrow> s | Inr s \<Rightarrow> s)"

text \<open>The body of the inner loop. \<open>model\<close> is the encoder under the current weights;
  \<open>apply_gradients\<close> stands for \<open>tape.gradient\<close> followed by
  \<open>optimizer.apply_gradients\<close>. Both are library calls that may raise.\<close>

definition train_step ::
  "('w \<Rightarrow> image list \<Rightarrow> failure + tensor2) \<Rightarrow>
   ('w \<Rightarrow> image list \<Rightarrow> image list \<Rightarrow> failure + 'w) \<Rightarrow>
   'w train_state \<Rightarrow> image list \<times> image list \<Rightarrow> 'w run" where
  "train_step model apply_gradients s b =
     (case b of (x1, x2) \<Rightarrow>
      let s1 = s\<lparr>fed := fed s @ [x1]\<rparr> in
      (case model (weights s) x1 of Inl e \<Rightarrow> Inl (e, s1) | Inr z1 \<Rightarrow>
       let s2 = s1\<lparr>fed := fed s1 @ [x2]\<rparr> in
       (case model (weights s) x2 of Inl e \<Rightarrow> Inl (e, s2) | Inr z2 \<Rightarrow>
        (case contrastive_loss z1 z2 (1 / 2) of
           Inl InvalidArgument \<Rightarrow> Inl (InvalidArgument, s2)
         | loss \<Rightarrow>
            (case apply_gradients (weights s) x1 x2 of Inl e \<Rightarrow> Inl (e, s2) | Inr w \<Rightarrow>
               Inr (s2\<lparr>weights := w,
                       losses := losses s @ [case loss of Inr v \<Rightarrow> Some v | Inl e \<Rightarrow> None]\<rparr>))))))"

fun run_batches ::
  "('w \<Rightarrow> image list \<Rightarrow> failure + tensor2) \<Rightarrow>
   ('w \<Rightarrow> image list \<Rightarrow> image list \<Rightarrow> failure + 'w) \<Rightarrow>
   'w train_state \<Rightarrow> (image list \<times> image list) list \<Rightarrow> 'w run" where
  "run_batches model apply_gradients s [] = Inr s"
| "run_batches model apply_gradients s (b # bs) =
     (case train_step model apply_gradients s b of
        Inl r \<Rightarrow> Inl r
      | Inr s1 \<Rightarrow> run_batches model apply_gradients s1 bs)"

text \<open>The outer loop over the epochs; every epoch iterates over \<open>train_ds\<close> anew and
  starts with an empty list of losses.\<close>

fun run_epochs ::
  "nat \<Rightarrow> (image, 'g) augment_layers \<Rightarrow> ('g \<Rightarrow> nat \<times> 'g) \<Rightarrow>
   ('w \<Rightarrow> image list \<Rightarrow> failure + tensor2) \<Rightarrow>
   ('w \<Rightarrow> image list \<Rightarrow> image list \<Rightarrow> failure + 'w) \<Rightarrow>
   image list \<Rightarrow> 'g \<Rightarrow> 'w train_state \<Rightarrow> 'w run" where
  "run_epochs 0 L rand model apply_gradients x_train g s = Inr s"
| "run_epochs (Suc n) L rand model apply_gradients x_train g s =
     (case train_ds L rand x_train g of (batches, g1) \<Rightarrow>
      (case run_batches model apply_gradients (s\<lparr>losses := []\<rparr>) batches of
         Inl r \<Rightarrow> Inl r
       | Inr s1 \<Rightarrow> run_epochs n L rand model apply_gradients x_train g1 s1))"

text \<open>The training cell: the images come from \<open>mnist.load_data()\<close>, whose outcome is
  \<open>load_data\<close>; the model starts from the weights \<open>w0\<close> and is trained for 20 epochs.\<close>

definition train ::
  "(failure + image list) \<Rightarrow> (image, 'g) augment_layers \<Rightarrow> ('g \<Rightarrow> nat \<times> 'g) \<Rightarrow>
   ('w \<Rightarrow> image list \<Rightarrow> failure + tensor2) \<Rightarrow>
   ('w \<Rightarrow> image list \<Rightarrow> image list \<Rightarrow> failure + 'w) \<Rightarrow> 'g \<Rightarrow> 'w \<Rightarrow> 'w run" where
  "train load_data L rand model apply_gradients g w0 =
     (let s0 = \<lparr>weights = w0, losses = [], fed = []\<rparr> in
      case load_data of
        Inl e \<Rightarrow> Inl (e, s0)
      | Inr x_train \<Rightarrow> run_epochs 20 L rand model apply_gradients x_train g s0)"

text \<open>An augmented view of one of the images \<open>xs\<close>: what one application of the
  augmentation pipeline returns for it, in some state of the generator.\<close>

definition is_view :: "(image, 'g) augment_layers \<Rightarrow> image list \<Rightarrow> image \<Rightarrow> bool" where
  "is_view L xs v \<longleftrightarrow> (\<exists>x \<in> set xs. \<exists>g. v = fst (augment L x g))"

text \<open>A pair of views of one of the images \<open>xs\<close>: what one call of the preprocessing layer
  returns for it.\<close>

definition is_view_pair :: "(image, 'g) augment_layers \<Rightarrow> image list \<Rightarrow> image \<times> image \<Rightarrow> bool" where
  "is_view_pair L xs p \<longleftrightarrow> (\<exists>x \<in> set xs. \<exists>g. p = fst (call L x g))"

text \<open>An instance of the layers, to run the pipeline on: the rescaling by 1/255, a flip
  that mirrors every row when the generator state is even and advances the state, and a
  crop, a rotation and a zoom that change nothing.\<close>

definition flip_layers :: "(image, nat) augment_layers" where
  "flip_layers =
     \<lparr> rescaling = map (map (map (\<lambda>v. v * (1 / 255)))),
       random_crop = (\<lambda>x g. (x, g)),
       random_flip = (\<lambda>x g. (if even g then map rev x else x, Suc g)),
       random_rotation = (\<lambda>x g. (x, g)),
       random_zoom = (\<lambda>x g. (x, g)) \<rparr>"

section \<open>Plotting jet images\<close>


text \<open>pyplot is library code, and the function has no handler around its calls. Whether
  a call raises is decided by matplotlib and by the file system: \<open>imshow\<close> raises a
  \<open>TypeError\<close> on data of a shape it does not accept (two channels, say), \<open>savefig\<close> a
  \<open>ValueError\<close> on a file format it does not know and an \<open>OSError\<close> on a directory that
  does not exist. The library is therefore a parameter: \<open>pyplot done c\<close> is the outcome of
  the call \<open>c\<close> made after the calls \<open>done\<close>, \<open>None\<close> when it returns and \<open>Some e\<close> when it
  raises \<open>e\<close>. A call that raises is not completed and ends the function with the
  exception; the lists below hold the completed calls.\<close>

datatype py_exception = TypeError | ValueError | OSError









section \<open>The contrastive loss at a small temperature\<close>

lemma upt_2: "[0..<2] = [0, Suc 0]"
  by (simp add: numeral_2_eq_2 upt_rec)

lemmas masked_similarity_defs = masked_similarity_def concat0_def row_len_def
  matmul_transpose_b_def dot_def div_scalar_def eye_def scale_def tsub_def stretch_def Let_def

lemma nt_xent_at: "nt_xent [[1, 0]] [[0, 1]] (1 / 2 ^ 30) = Inr 0"
  by (simp add: nt_xent_def sim_at_def dot_def partner_def reduce_mean_def numeral_2_eq_2
      atLeast0_lessThan_Suc insert_Diff_if)

text \<open>
  C1: \<open>contrastive_loss\<close> is to equal the published NT-Xent loss for every pair of equal-size
  batches and every temperature \<open>t > 0\<close>. The code evaluated at the unit vectors
  \<open>z1 = [[1, 0]]\<close>, \<open>z2 = [[0, 1]]\<close> and \<open>t = 2\<^sup>-\<^sup>3\<^sup>0\<close>: the scaled similarity matrix has
  \<open>2\<^sup>3\<^sup>0\<close> on its diagonal, and subtracting \<open>1e9\<close> leaves \<open>73741824\<close> there, a positive
  number. The self-similarity is thus not removed from the row sums, which the source
  announces (\<open>Remove self-similarities\<close>, \<open>sum over all other similarities\<close>): each
  denominator holds \<open>exp 73741824\<close>, which is beyond the range of float32, next to the
  \<open>exp 0\<close> of the positive pair. The published loss of this input is 0. Every number in this
  evaluation is exactly representable in float32.
\<close>

theorem masked_similarity_keeps_self_similarity:
  "masked_similarity [[1, 0]] [[0, 1]] (1 / 2 ^ 30) = Inr [[73741824, 0], [0, 73741824]] \<and>
   nt_xent [[1, 0]] [[0, 1]] (1 / 2 ^ 30) = Inr 0"
proof -
  have "masked_similarity [[1, 0]] [[0, 1]] (1 / 2 ^ 30) = Inr [[73741824, 0], [0, 73741824]]"
    by (simp add: masked_similarity_defs upt_2)
  then show ?thesis using nt_xent_at by simp
qed

lemma contrastive_loss_unit_pair: "\<exists>c. contrastive_loss [[1]] [[1]] (1 / 2) = Inr c"
proof -
  have "contrastive_loss [[1]] [[1]] (1 / 2) =
      Inr ((- ln (exp 2 / (exp (- 999999998) + exp 2)) -
            ln (exp 2 / (exp 2 + exp (- 999999998)))) / 2)"
    by (simp add: contrastive_loss_def masked_similarity_defs upt_2 loss_from_sim_def
        diag_part_def reduce_sum1_def reduce_mean_def)
  then show ?thesis by blast
qed

section \<open>Properties of the encoder\<close>

lemma sum_list_zero: "set xs \<subseteq> {0} \<Longrightarrow> sum_list xs = (0 :: real)"
  by (induction xs) auto

lemma dot_zero_left: "set xs \<subseteq> {0} \<Longrightarrow> dot xs ys = 0"
proof -
  assume a: "set xs \<subseteq> {0}"
  have "set (map2 (*) xs ys) \<subseteq> {0}"
    using a by (auto dest!: set_zip_leftD)
  then show ?thesis by (simp add: dot_def sum_list_zero)
qed

lemma patch_zero:
  assumes "\<forall>row \<in> set img. \<forall>px \<in> set row. set px \<subseteq> {0}"
  shows "set (patch img y x) \<subseteq> {0}"
  using assms by (auto simp: patch_def dest!: in_set_takeD in_set_dropD)

lemma row_len_replicate: "row_len (replicate n r) = (if n = 0 then 0 else length r)"
  by (cases n) (simp_all add: row_len_def)

lemma dot_replicate_zero: "dot (replicate m 0) ys = 0"
  by (rule dot_zero_left) auto

lemma conv2d_relu_zero:
  assumes "\<forall>row \<in> set img. \<forall>px \<in> set row. set px \<subseteq> {0}"
  shows "conv2d_relu K (replicate n 0) img =
     replicate (out_size (length img)) (replicate (out_size (row_len img)) (replicate n 0))"
proof -
  have "relu (dot (patch img y x) (filter_weights K f) + replicate n 0 ! f) = 0"
    if "f \<in> set [0..<n]" for y x f
    using that by (simp add: dot_zero_left[OF patch_zero[OF assms]] relu_def)
  then have "map (\<lambda>f. relu (dot (patch img y x) (filter_weights K f) + replicate n 0 ! f)) [0..<n] =
      map (\<lambda>f. 0) [0..<n]" for y x
    by (intro map_cong[OF refl])
  then have "map (\<lambda>f. relu (dot (patch img y x) (filter_weights K f) + replicate n 0 ! f)) [0..<n] =
      replicate n 0" for y x
    by (simp add: map_replicate_const)
  then show ?thesis
    by (simp add: conv2d_relu_def map_replicate_const)
qed

lemma zero_image_zero: "\<forall>row \<in> set (zero_image h w c). \<forall>px \<in> set row. set px \<subseteq> {0}"
  by (auto simp: zero_image_def)

lemma conv2d_relu_zero_image:
  "0 < h \<Longrightarrow> conv2d_relu K (replicate n 0) (zero_image h w c) = zero_image (out_size h) (out_size w) n"
  by (simp add: conv2d_relu_zero[OF zero_image_zero])
    (simp add: zero_image_def row_len_replicate)

lemma concat_replicate_replicate: "concat (replicate h (replicate w x)) = replicate (h * w) x"
  by (induction h) (simp_all add: replicate_add)

lemma global_average_pooling2d_zero_image:
  "0 < h * w \<Longrightarrow> global_average_pooling2d (zero_image h w c) = replicate c 0"
proof -
  assume hw: "0 < h * w"
  have cc: "concat (zero_image h w c) = replicate (h * w) (replicate c 0)"
    by (simp add: zero_image_def concat_replicate_replicate)
  have "sum_list (channel_values (zero_image h w c) k) / real (length (concat (zero_image h w c))) = 0"
    if "k \<in> set [0..<c]" for k
  proof -
    have "set (channel_values (zero_image h w c) k) \<subseteq> {0}"
      using that by (auto simp: channel_values_def cc)
    then show ?thesis by (simp add: sum_list_zero)
  qed
  then have "map (\<lambda>k. sum_list (channel_values (zero_image h w c) k) /
        real (length (concat (zero_image h w c)))) [0..<c] = map (\<lambda>k. 0) [0..<c]"
    by (intro map_cong[OF refl])
  moreover have "row_len (concat (zero_image h w c)) = c"
    using hw by (simp add: cc row_len_replicate)
  ultimately show ?thesis
    by (simp add: global_average_pooling2d_def map_replicate_const)
qed

lemma dense_zero_input: "dense act W b (replicate m 0) = map act b"
proof -
  have "map (\<lambda>j. act (dot (replicate m 0) (map (\<lambda>wrow. wrow ! j) W) + b ! j)) [0..<length b] =
      map (\<lambda>j. act (b ! j)) [0..<length b]"
    by (simp add: dot_replicate_zero)
  also have "\<dots> = map act (map ((!) b) [0..<length b])" by simp
  finally show ?thesis by (simp only: dense_def map_nth)
qed

lemma l2_normalize_zero: "l2_normalize (replicate n 0) = replicate n 0"
  by (simp add: l2_normalize_def)

lemma norm2_zero: "norm2 (replicate n 0) = 0"
  by (simp add: norm2_def sum_list_replicate)

lemma black_is_image: "is_image h w c (zero_image h w c)"
  by (simp add: is_image_def zero_image_def list_all_iff)

lemma base_model_black:
  assumes "conv1_bias w = replicate 32 0" "conv2_bias w = replicate 64 0"
  shows "base_model w (zero_image 28 28 1) = replicate 64 0"
proof -
  have o: "out_size 28 = 13" "out_size 13 = 6" by (simp_all add: out_size_def)
  show ?thesis
    by (simp add: base_model_def assms conv2d_relu_zero_image o
        global_average_pooling2d_zero_image)
qed

lemma projection_head_zero:
  assumes "dense1_bias w = replicate 64 0"
  shows "projection_head w (replicate 64 0) = dense2_bias w"
  by (simp add: projection_head_def assms dense_zero_input relu_def)

lemma encoder_black:
  assumes "conv1_bias w = replicate 32 0" "conv2_bias w = replicate 64 0"
    "dense1_bias w = replicate 64 0"
  shows "create_encoder w [zero_image 28 28 1] = Inr [l2_normalize (dense2_bias w)]"
proof -
  have "projection_head w (base_model w (zero_image 28 28 1)) = dense2_bias w"
    by (simp only: base_model_black[OF assms(1,2)] projection_head_zero[OF assms(3)])
  then show ?thesis
    using black_is_image[of 28 28 1] by (simp add: create_encoder_def)
qed

text \<open>
  C4: every row of the encoder's output is to have Euclidean norm 1, for every input batch.
  The code evaluated on a black image, for the model as \<open>create_encoder\<close> builds it (Keras
  starts every bias at zero) and whatever the kernels hold: both convolutions, the pooling
  and both dense layers map zeros to zeros, so the row that reaches
  \<open>tf.math.l2_normalize\<close> is the zero vector, and multiplying it by
  \<open>rsqrt (max 0 epsilon)\<close> returns the zero vector: the output row has norm 0, where the
  source announces \<open>Normalize to unit vectors\<close>. Every entry along the way is 0, and
  the one factor that is not multiplies 0, so float32 computes the same.
\<close>

theorem encoder_black_image_zero_row:
  assumes "conv1_bias w = replicate 32 0" and "conv2_bias w = replicate 64 0"
    and "dense1_bias w = replicate 64 0" and "dense2_bias w = replicate d 0"
  shows "create_encoder w [zero_image 28 28 1] = Inr [replicate d 0] \<and>
         norm2 (replicate d 0) = 0"
  using encoder_black[OF assms(1,2,3)]
  by (simp add: assms(4) l2_normalize_zero norm2_zero)

theorem encoder_black_image_zero_row_witness:
  "conv1_bias (built_weights 32 (1 / 8)) = replicate 32 0 \<and>
   conv2_bias (built_weights 32 (1 / 8)) = replicate 64 0 \<and>
   dense1_bias (built_weights 32 (1 / 8)) = replicate 64 0 \<and>
   dense2_bias (built_weights 32 (1 / 8)) = replicate 32 0 \<and>
   create_encoder (built_weights 32 (1 / 8)) [zero_image 28 28 1] = Inr [replicate 32 0] \<and>
   norm2 (replicate 32 0) = 0"
proof -
  have a: "conv1_bias (built_weights 32 (1 / 8)) = replicate 32 0"
    and b: "conv2_bias (built_weights 32 (1 / 8)) = replicate 64 0"
    and c: "dense1_bias (built_weights 32 (1 / 8)) = replicate 64 0"
    and d: "dense2_bias (built_weights 32 (1 / 8)) = replicate 32 0"
    by (simp_all add: built_weights_def)
  show ?thesis
    using a b c d encoder_black_image_zero_row[OF a b c d] by blast
qed


section \<open>Properties of the augmentation and of the training cell\<close>

text \<open>
  C5: for every input \<open>x\<close>, \<open>SimCLRPreprocessing.call\<close> returns a pair of two tensors. Each
  is what the augmentation pipeline returns for \<open>x\<close>, the pipeline being the rescaling
  followed by the random crop, flip, rotation and zoom in this order; and the two come from
  two separate applications of the pipeline: the second starts from the generator state
  that the first has left.
\<close>

theorem call_returns_two_views:
  "(\<exists>view1 g1 view2 g2. augment L x g = (view1, g1) \<and> augment L x g1 = (view2, g2) \<and>
       call L x g = ((view1, view2), g2)) \<and>
   augment L x g =
     (case random_crop L (rescaling L x) g of (x1, g1) \<Rightarrow>
      (case random_flip L x1 g1 of (x2, g2) \<Rightarrow>
       (case random_rotation L x2 g2 of (x3, g3) \<Rightarrow> random_zoom L x3 g3)))"
  by (simp add: call_def augment_def split: prod.splits)

lemma drain_Nil: "drain rand [] rest g = ([], g)"
  by (cases rest) (simp_all add: drain.simps)

lemma drain_subset: "set (fst (drain rand buffer rest g)) \<subseteq> set buffer \<union> set rest"
proof (induction rand buffer rest g rule: drain.induct)
  case (1 rand buffer g)
  show ?case
  proof (cases "buffer = []")
    case True
    then show ?thesis by (simp add: drain_Nil)
  next
    case False
    obtain r g1 where r: "rand g = (r, g1)" by (cases "rand g")
    let ?i = "r mod length buffer"
    have i: "?i < length buffer" using False by simp
    obtain out g2 where d: "drain rand (take ?i buffer @ drop (Suc ?i) buffer) [] g1 = (out, g2)"
      by (cases "drain rand (take ?i buffer @ drop (Suc ?i) buffer) [] g1")
    have "set out \<subseteq> set (take ?i buffer @ drop (Suc ?i) buffer) \<union> set []"
      using "1.IH"[OF False r[symmetric]] d by simp
    then have "set out \<subseteq> set buffer"
      by (auto dest: in_set_takeD in_set_dropD)
    then show ?thesis using False r d i by (simp add: drain.simps(1)[of rand buffer g])
  qed
next
  case (2 rand buffer y ys g)
  show ?case
  proof (cases "buffer = []")
    case True
    then show ?thesis by (simp add: drain_Nil)
  next
    case False
    obtain r g1 where r: "rand g = (r, g1)" by (cases "rand g")
    let ?i = "r mod length buffer"
    have i: "?i < length buffer" using False by simp
    obtain out g2 where d: "drain rand (buffer[?i := y]) ys g1 = (out, g2)"
      by (cases "drain rand (buffer[?i := y]) ys g1")
    have "set out \<subseteq> set (buffer[?i := y]) \<union> set ys"
      using "2.IH"[OF False r[symmetric]] d by simp
    then have "set out \<subseteq> set buffer \<union> set (y # ys)"
      using set_update_subset_insert[of buffer ?i y] by auto
    then show ?thesis using False r d i
      by (auto simp: drain.simps(2)[of rand buffer y ys g])
  qed
qed

lemma shuffle_subset: "set (fst (shuffle n rand xs g)) \<subseteq> set xs"
proof -
  have "set (take n xs) \<union> set (drop n xs) \<subseteq> set xs"
    by (auto dest: in_set_takeD in_set_dropD)
  then show ?thesis using drain_subset[of rand "take n xs" "drop n xs" g]
    by (auto simp: shuffle_def)
qed

lemma map_ds_elems:
  "p \<in> set (fst (map_ds f xs g)) \<Longrightarrow> \<exists>x \<in> set xs. \<exists>g'. p = fst (f x g')"
proof (induction xs arbitrary: g)
  case Nil
  then show ?case by simp
next
  case (Cons x xs)
  obtain y g1 where y: "f x g = (y, g1)" by (cases "f x g")
  obtain ys g2 where ys: "map_ds f xs g1 = (ys, g2)" by (cases "map_ds f xs g1")
  from Cons.prems y ys have "p = y \<or> p \<in> set ys" by simp
  then show ?case
  proof
    assume "p = y"
    then have "p = fst (f x g)" using y by simp
    then show ?thesis by auto
  next
    assume "p \<in> set ys"
    then have "p \<in> set (fst (map_ds f xs g1))" using ys by simp
    from Cons.IH[OF this] show ?thesis by auto
  qed
qed

lemma batch_ds_subset: "b \<in> set (batch_ds n xs) \<Longrightarrow> set b \<subseteq> set xs"
proof (induction n xs rule: batch_ds.induct)
  case (1 n xs)
  show ?case
  proof (cases "n = 0 \<or> xs = []")
    case True
    then show ?thesis using "1.prems" by (simp add: batch_ds.simps[of n xs])
  next
    case False
    then have "b = take n xs \<or> b \<in> set (batch_ds n (drop n xs))"
      using "1.prems" by (simp add: batch_ds.simps[of n xs])
    then show ?thesis
    proof
      assume "b = take n xs"
      then show ?thesis by (auto dest: in_set_takeD)
    next
      assume "b \<in> set (batch_ds n (drop n xs))"
      from "1.IH"[OF False this] show ?thesis by (auto dest: in_set_dropD)
    qed
  qed
qed

lemma call_views:
  "fst (fst (call L x g)) = fst (augment L x g) \<and>
   snd (fst (call L x g)) = fst (augment L x (snd (augment L x g)))"
  by (simp add: call_def split: prod.splits)

lemma train_ds_views:
  assumes "(x1, x2) \<in> set (fst (train_ds L rand x_train g))"
  shows "(\<forall>v \<in> set x1. is_view L x_train v) \<and> (\<forall>v \<in> set x2. is_view L x_train v)"
proof -
  obtain shuffled g1 where sh: "shuffle 1024 rand x_train g = (shuffled, g1)"
    by (cases "shuffle 1024 rand x_train g")
  obtain pairs g2 where mp: "map_ds (call L) shuffled g1 = (pairs, g2)"
    by (cases "map_ds (call L) shuffled g1")
  have sub: "set shuffled \<subseteq> set x_train" using shuffle_subset[of 1024 rand x_train g] sh by simp
  from assms obtain b where b: "b \<in> set (batch_ds 512 pairs)" and x: "x1 = map fst b" "x2 = map snd b"
    by (auto simp: train_ds_def sh mp)
  have pv: "is_view L x_train (fst p) \<and> is_view L x_train (snd p)" if "p \<in> set b" for p
  proof -
    have "p \<in> set (fst (map_ds (call L) shuffled g1))"
      using that batch_ds_subset[OF b] mp by auto
    from map_ds_elems[OF this]
    obtain x g' where xg: "x \<in> set shuffled" "p = fst (call L x g')"
      by auto
    then show ?thesis
      using sub call_views[of L x g'] by (auto simp: is_view_def)
  qed
  show ?thesis using pv by (auto simp: x)
qed

lemma train_ds_pairs:
  assumes "(x1, x2) \<in> set (fst (train_ds L rand x_train g))"
  shows "length x1 = length x2 \<and> list_all (is_view_pair L x_train) (zip x1 x2)"
proof -
  obtain shuffled g1 where sh: "shuffle 1024 rand x_train g = (shuffled, g1)"
    by (cases "shuffle 1024 rand x_train g")
  obtain pairs g2 where mp: "map_ds (call L) shuffled g1 = (pairs, g2)"
    by (cases "map_ds (call L) shuffled g1")
  have sub: "set shuffled \<subseteq> set x_train" using shuffle_subset[of 1024 rand x_train g] sh by simp
  from assms obtain b where b: "b \<in> set (batch_ds 512 pairs)" and x: "x1 = map fst b" "x2 = map snd b"
    by (auto simp: train_ds_def sh mp)
  have "is_view_pair L x_train p" if "p \<in> set b" for p
  proof -
    have "p \<in> set (fst (map_ds (call L) shuffled g1))"
      using that batch_ds_subset[OF b] mp by auto
    from map_ds_elems[OF this]
    obtain x g' where xg: "x \<in> set shuffled" "p = fst (call L x g')"
      by auto
    then show ?thesis using sub by (auto simp: is_view_pair_def)
  qed
  moreover have "zip x1 x2 = b" by (simp add: x zip_map_fst_snd)
  ultimately show ?thesis by (simp add: x list_all_iff)
qed

lemma train_step_fed:
  "set (fed (final (train_step model ag s (x1, x2)))) \<subseteq> set (fed s) \<union> {x1, x2}"
  by (auto simp: train_step_def final_def Let_def split: sum.splits failure.splits)

lemma run_batches_fed:
  "set (fed (final (run_batches model ag s bs))) \<subseteq>
     set (fed s) \<union> (\<Union>(x1, x2) \<in> set bs. {x1, x2})"
proof (induction bs arbitrary: s)
  case Nil
  then show ?case by (simp add: final_def)
next
  case (Cons b bs)
  obtain x1 x2 where b: "b = (x1, x2)" by (cases b)
  show ?case
  proof (cases "train_step model ag s b")
    case (Inl r)
    then have "final (run_batches model ag s (b # bs)) = final (train_step model ag s b)"
      by simp
    then show ?thesis using train_step_fed[of model ag s x1 x2] by (auto simp: b)
  next
    case (Inr s1)
    then have s1: "set (fed s1) \<subseteq> set (fed s) \<union> {x1, x2}"
      using train_step_fed[of model ag s x1 x2] by (simp add: b final_def)
    have "run_batches model ag s (b # bs) = run_batches model ag s1 bs"
      using Inr by simp
    then show ?thesis using Cons.IH[of s1] s1 by (auto simp: b)
  qed
qed

lemma run_epochs_fed:
  assumes "\<forall>b \<in> set (fed s). \<forall>v \<in> set b. is_view L x_train v"
  shows "\<forall>b \<in> set (fed (final (run_epochs n L rand model ag x_train g s))).
           \<forall>v \<in> set b. is_view L x_train v"
  using assms
proof (induction n arbitrary: g s)
  case 0
  then show ?case by (simp add: final_def)
next
  case (Suc n)
  obtain batches g1 where ds: "train_ds L rand x_train g = (batches, g1)"
    by (cases "train_ds L rand x_train g")
  have views: "\<forall>v \<in> set x. is_view L x_train v"
    if "x \<in> (\<Union>(x1, x2) \<in> set batches. {x1, x2})" for x
    using that train_ds_views[of _ _ L rand x_train g] ds by fastforce
  let ?r = "run_batches model ag (s\<lparr>losses := []\<rparr>) batches"
  have inv: "\<forall>b \<in> set (fed (final ?r)). \<forall>v \<in> set b. is_view L x_train v"
  proof
    fix b assume "b \<in> set (fed (final ?r))"
    then have "b \<in> set (fed s) \<or> b \<in> (\<Union>(x1, x2) \<in> set batches. {x1, x2})"
      using run_batches_fed[of model ag "s\<lparr>losses := []\<rparr>" batches] by auto
    then show "\<forall>v \<in> set b. is_view L x_train v"
      using Suc.prems views by blast
  qed
  show ?case
  proof (cases ?r)
    case (Inl r)
    then have "final (run_epochs (Suc n) L rand model ag x_train g s) = final ?r"
      by (simp add: ds)
    then show ?thesis using inv by simp
  next
    case (Inr s1)
    then have "run_epochs (Suc n) L rand model ag x_train g s =
        run_epochs n L rand model ag x_train g1 s1"
      by (simp add: ds)
    moreover have "\<forall>b \<in> set (fed s1). \<forall>v \<in> set b. is_view L x_train v"
      using inv Inr by (simp add: final_def)
    ultimately show ?thesis using Suc.IH[of s1 g1] by simp
  qed
qed

text \<open>
  C6: augmentation stands between the loading of the data and the model. Every batch that
  an iteration over \<open>train_ds\<close> delivers is a pair \<open>(x1, x2)\<close> of equally long stacks whose
  \<open>k\<close>-th entries are the two views that one call of \<open>SimCLRPreprocessing\<close> returned for a
  loaded training image; and every tensor that the training cell passes to the encoder,
  whether the run ends normally or with an exception, consists of such views only: no
  image reaches the encoder without having passed through the augmentation.
\<close>

theorem training_consumes_views_only:
  "(\<forall>(x1, x2) \<in> set (fst (train_ds L rand x_train g)).
      length x1 = length x2 \<and> list_all (is_view_pair L x_train) (zip x1 x2)) \<and>
   (\<forall>b \<in> set (fed (final (train (Inr x_train) L rand model ag g0 w0))).
      \<forall>v \<in> set b. is_view L x_train v)"
proof -
  have "\<forall>b \<in> set (fed \<lparr>weights = w0, losses = [], fed = []\<rparr>). \<forall>v \<in> set b. is_view L x_train v"
    by simp
  from run_epochs_fed[OF this]
  have "\<forall>b \<in> set (fed (final (train (Inr x_train) L rand model ag g0 w0))).
      \<forall>v \<in> set b. is_view L x_train v"
    by (simp add: train_def Let_def)
  then show ?thesis using train_ds_pairs[of _ _ L rand x_train g] by auto
qed

lemma train_step_fed_mono: "set (fed s) \<subseteq> set (fed (final (train_step model ag s b)))"
  by (cases b) (auto simp: train_step_def final_def Let_def split: sum.splits failure.splits)

lemma run_batches_fed_mono: "set (fed s) \<subseteq> set (fed (final (run_batches model ag s bs)))"
proof (induction bs arbitrary: s)
  case Nil
  then show ?case by (simp add: final_def)
next
  case (Cons b bs)
  show ?case
  proof (cases "train_step model ag s b")
    case (Inl r)
    then show ?thesis using train_step_fed_mono[of s model ag b] by simp
  next
    case (Inr s1)
    then have "set (fed s) \<subseteq> set (fed s1)"
      using train_step_fed_mono[of s model ag b] by (simp add: final_def)
    then show ?thesis using Cons.IH[of s1] Inr by auto
  qed
qed

lemma run_epochs_fed_mono:
  "set (fed s) \<subseteq> set (fed (final (run_epochs n L rand model ag x_train g s)))"
proof (induction n arbitrary: g s)
  case 0
  then show ?case by (simp add: final_def)
next
  case (Suc n)
  obtain batches g1 where ds: "train_ds L rand x_train g = (batches, g1)"
    by (cases "train_ds L rand x_train g")
  let ?r = "run_batches model ag (s\<lparr>losses := []\<rparr>) batches"
  have m: "set (fed s) \<subseteq> set (fed (final ?r))"
    using run_batches_fed_mono[of "s\<lparr>losses := []\<rparr>" model ag batches] by simp
  show ?case
  proof (cases ?r)
    case (Inl r)
    then show ?thesis using m by (simp add: ds)
  next
    case (Inr s1)
    then have "set (fed s) \<subseteq> set (fed s1)" using m by (simp add: final_def)
    then show ?thesis using Suc.IH[of s1 g1] Inr by (auto simp: ds)
  qed
qed

theorem training_consumes_views_only_witness:
  "([[[[0], [1]]]], [[[[1], [0]]]]) \<in> set (fst (train_ds flip_layers (\<lambda>g. (g, g)) [[[[255], [0]]]] 0)) \<and>
   list_all (is_view_pair flip_layers [[[[255], [0]]]]) (zip [[[[0], [1]]]] [[[[1], [0]]]]) \<and>
   [[[[0], [1]]]] \<in> set (fed (final (train (Inr [[[[255], [0]]]]) flip_layers (\<lambda>g. (g, g))
       (\<lambda>w xs. Inr (map (\<lambda>x. [1]) xs)) (\<lambda>w x1 x2. Inr (Suc w)) 0 0))) \<and>
   is_view flip_layers [[[[255], [0]]]] [[[0], [1]]]"
proof -
  let ?xs = "[[[[255], [0 :: real]]]]"
  let ?rand = "\<lambda>g :: nat. (g, g)"
  let ?model = "\<lambda>(w :: nat) (xs :: image list). (Inr (map (\<lambda>x. [1]) xs) :: failure + tensor2)"
  let ?ag = "\<lambda>(w :: nat) (x1 :: image list) (x2 :: image list). (Inr (Suc w) :: failure + nat)"
  let ?s0 = "\<lparr>weights = 0 :: nat, losses = [], fed = []\<rparr>"
  have ds: "train_ds flip_layers ?rand ?xs 0 = ([([[[[0], [1]]]], [[[[1], [0]]]])], 2)"
    by (simp add: train_ds_def shuffle_def drain.simps batch_ds.simps call_def augment_def
        flip_layers_def)
  obtain c where loss: "contrastive_loss [[1]] [[1]] (1 / 2) = Inr c"
    using contrastive_loss_unit_pair by blast
  have step: "train_step ?model ?ag ?s0 ([[[[0], [1]]]], [[[[1], [0]]]]) =
      Inr \<lparr>weights = 1, losses = [Some c], fed = [[[[[0], [1]]]], [[[[1], [0]]]]]\<rparr>"
    by (simp add: train_step_def Let_def loss)
  have "(20 :: nat) = Suc 19" by simp
  then have run: "train (Inr ?xs) flip_layers ?rand ?model ?ag 0 0 =
      run_epochs 19 flip_layers ?rand ?model ?ag ?xs 2
        \<lparr>weights = 1, losses = [Some c], fed = [[[[[0], [1]]]], [[[[1], [0]]]]]\<rparr>"
    by (simp only: train_def Let_def sum.case run_epochs.simps ds prod.case)
       (simp add: step)
  have fed: "[[[[0], [1]]]] \<in> set (fed (final (train (Inr ?xs) flip_layers ?rand ?model ?ag 0 0)))"
    using run_epochs_fed_mono[of
        "\<lparr>weights = 1, losses = [Some c], fed = [[[[[0], [1]]]], [[[[1], [0]]]]]\<rparr>"
        19 flip_layers ?rand ?model ?ag ?xs 2]
    by (simp only: run) simp
  have mem: "([[[[0], [1]]]], [[[[1], [0]]]]) \<in> set (fst (train_ds flip_layers ?rand ?xs 0))"
    by (simp add: ds)
  show ?thesis
    using mem fed
      training_consumes_views_only[of flip_layers ?rand ?xs 0 ?model ?ag 0 0]
    by fastforce
qed

text \<open>
  The training cell has no handler. When the loading of the data raises, the cell ends
  with that failure before any training. When, after any number of successful steps, the
  encoder, the loss or the optimizer step raises on a batch, the loop ends with exactly
  that failure: the weights and the losses are those before the failing step, the encoder
  is not called again, and the remaining batches and epochs are not run.
\<close>

lemma run_batches_append:
  "run_batches model ag s pre = Inr s1 \<Longrightarrow>
   run_batches model ag s (pre @ bs) = run_batches model ag s1 bs"
  by (induction pre arbitrary: s) (auto split: sum.splits)

lemma train_step_raises:
  assumes "model (weights s) x1 = Inl e \<or>
     (\<exists>z1. model (weights s) x1 = Inr z1 \<and> model (weights s) x2 = Inl e) \<or>
     (\<exists>z1 z2. model (weights s) x1 = Inr z1 \<and> model (weights s) x2 = Inr z2 \<and>
        contrastive_loss z1 z2 (1 / 2) = Inl InvalidArgument \<and> e = InvalidArgument) \<or>
     (\<exists>z1 z2. model (weights s) x1 = Inr z1 \<and> model (weights s) x2 = Inr z2 \<and>
        contrastive_loss z1 z2 (1 / 2) \<noteq> Inl InvalidArgument \<and>
        ag (weights s) x1 x2 = Inl e)"
  shows "\<exists>s2. train_step model ag s (x1, x2) = Inl (e, s2) \<and> weights s2 = weights s \<and>
           losses s2 = losses s \<and> (fed s2 = fed s @ [x1] \<or> fed s2 = fed s @ [x1, x2])"
  using assms
  by (auto simp: train_step_def Let_def split: sum.splits failure.splits)

lemma failure_surfaces:
  assumes pre: "run_batches model ag s pre = Inr s1"
    and fail: "model (weights s1) x1 = Inl e \<or>
     (\<exists>z1. model (weights s1) x1 = Inr z1 \<and> model (weights s1) x2 = Inl e) \<or>
     (\<exists>z1 z2. model (weights s1) x1 = Inr z1 \<and> model (weights s1) x2 = Inr z2 \<and>
        contrastive_loss z1 z2 (1 / 2) = Inl InvalidArgument \<and> e = InvalidArgument) \<or>
     (\<exists>z1 z2. model (weights s1) x1 = Inr z1 \<and> model (weights s1) x2 = Inr z2 \<and>
        contrastive_loss z1 z2 (1 / 2) \<noteq> Inl InvalidArgument \<and>
        ag (weights s1) x1 x2 = Inl e)"
  shows "\<exists>s2. run_batches model ag s (pre @ (x1, x2) # post) = Inl (e, s2) \<and>
           weights s2 = weights s1 \<and> losses s2 = losses s1 \<and>
           (fed s2 = fed s1 @ [x1] \<or> fed s2 = fed s1 @ [x1, x2])"
proof -
  from fail have "\<exists>s2. train_step model ag s1 (x1, x2) = Inl (e, s2) \<and> weights s2 = weights s1 \<and>
           losses s2 = losses s1 \<and> (fed s2 = fed s1 @ [x1] \<or> fed s2 = fed s1 @ [x1, x2])"
    by (rule train_step_raises)
  then obtain s2 where
    s2: "train_step model ag s1 (x1, x2) = Inl (e, s2)" "weights s2 = weights s1"
      "losses s2 = losses s1" "fed s2 = fed s1 @ [x1] \<or> fed s2 = fed s1 @ [x1, x2]"
    by blast
  have "run_batches model ag s (pre @ (x1, x2) # post) = Inl (e, s2)"
    by (simp add: run_batches_append[OF pre] s2(1))
  then show ?thesis using s2 by blast
qed

lemma run_epochs_raises:
  assumes "train_ds L rand x_train g = (batches, g1)"
    and "run_batches model ag (s\<lparr>losses := []\<rparr>) batches = Inl r"
  shows "run_epochs (Suc n) L rand model ag x_train g s = Inl r"
  using assms by simp

lemma train_load_fails:
  "train (Inl e) L rand model ag g w0 = Inl (e, \<lparr>weights = w0, losses = [], fed = []\<rparr>)"
  by (simp add: train_def)

section \<open>Properties of the plotting function\<close>















end
